theory Spec2Isabelle
  imports Complex_Main "HOL-Library.While_Combinator"
begin

section \<open>Geometry kernel (polygon\_boolean.hpp)\<close>

text \<open>
  The C++ type \<^verbatim>\<open>double\<close> is modelled by \<^typ>\<open>real\<close>, and the development follows
  the control flow and the formulas of the source. Arithmetic is exact, with two
  exceptions written out where the machine decides the outcome: the operations of the
  range search are rounded to the nearest double (\<open>roundDouble\<close> below), and a quotient by
  zero in \<open>getElevationAt\<close> is an infinity or a NaN. The statements about polygons use
  \<open>signedArea\<close> only through the comparisons the code itself makes and through its early
  return. \<^verbatim>\<open>size_t\<close> indices are natural numbers and \<^verbatim>\<open>int\<close> parameters are integers.
\<close>

record Point2D =
  x :: real
  y :: real

definition point_add :: "Point2D \<Rightarrow> Point2D \<Rightarrow> Point2D" where
  "point_add a b = \<lparr>x = x a + x b, y = y a + y b\<rparr>"

definition point_sub :: "Point2D \<Rightarrow> Point2D \<Rightarrow> Point2D" where
  "point_sub a b = \<lparr>x = x a - x b, y = y a - y b\<rparr>"

definition point_scale :: "Point2D \<Rightarrow> real \<Rightarrow> Point2D" where
  "point_scale a s = \<lparr>x = x a * s, y = y a * s\<rparr>"

definition point_length :: "Point2D \<Rightarrow> real" where
  "point_length a = sqrt (x a * x a + y a * y a)"

type_synonym Polygon = "Point2D list"

record PolygonWithHoles =
  outer :: Polygon
  holes :: "Polygon list"

type_synonym MultiPolygon = "PolygonWithHoles list"

subsection \<open>PolygonUtils\<close>

text \<open>
  \<^verbatim>\<open>signedArea\<close>: the loop runs \<open>i = 0 .. n-1\<close> with \<open>j = (i + 1) % n\<close> and performs
  \<^verbatim>\<open>area += poly[i].x * poly[j].y; area -= poly[j].x * poly[i].y\<close>.
\<close>

definition signedArea :: "Polygon \<Rightarrow> real" where
  "signedArea poly =
     (if length poly < 3 then 0
      else (let n = length poly in
            foldl (\<lambda>area i. let j = (i + 1) mod n in
                     area + x (poly ! i) * y (poly ! j) - x (poly ! j) * y (poly ! i))
                  0 [0..<n]) / 2)"

definition area :: "Polygon \<Rightarrow> real" where
  "area poly = \<bar>signedArea poly\<bar>"

definition perimeter :: "Polygon \<Rightarrow> real" where
  "perimeter poly =
     (if length poly < 2 then 0
      else (let n = length poly in
            foldl (\<lambda>perim i. let j = (i + 1) mod n in
                     perim + point_length (point_sub (poly ! j) (poly ! i)))
                  0 [0..<n]))"

definition isCounterClockwise :: "Polygon \<Rightarrow> bool" where
  "isCounterClockwise poly = (signedArea poly > 0)"

definition ensureOrientation :: "Polygon \<Rightarrow> bool \<Rightarrow> Polygon" where
  "ensureOrientation poly ccw =
     (let isCCW = isCounterClockwise poly in
      if isCCW = ccw then poly else rev poly)"

text \<open>
  \<^verbatim>\<open>pointInPolygon\<close>: \<^verbatim>\<open>for (i = 0, j = n - 1; i < n; j = i++)\<close>, so \<open>j\<close> is the
  index before \<open>i\<close>, cyclically. The division is only reached when the two ordinates lie
  on different sides of \<open>pt.y\<close>, hence never with a zero divisor.
\<close>

definition pointInPolygon :: "Point2D \<Rightarrow> Polygon \<Rightarrow> bool" where
  "pointInPolygon pt poly =
     (let n = length poly in
      foldl (\<lambda>inside i. let j = (if i = 0 then n - 1 else i - 1) in
               if ((y (poly ! i) > y pt) \<noteq> (y (poly ! j) > y pt)) \<and>
                  (x pt < (x (poly ! j) - x (poly ! i)) * (y pt - y (poly ! i)) /
                          (y (poly ! j) - y (poly ! i)) + x (poly ! i))
               then \<not> inside else inside)
            False [0..<n])"

subsection \<open>PolygonProcessor::smooth\<close>




subsection \<open>Clipper2 types and coordinate conversion\<close>

text \<open>
  Clipper2 is an external library. Its point type carries two doubles; its operations
  (\<^verbatim>\<open>ClipperD::Execute\<close>, \<^verbatim>\<open>InflatePaths\<close>, \<^verbatim>\<open>SimplifyPaths\<close>) are parameters of the
  model, collected in the record \<open>Clipper\<close>: every statement below holds for whatever
  contour lists the engine returns.
\<close>

record ClipperPoint =
  cx :: real
  cy :: real

type_synonym ClipperPath = "ClipperPoint list"
type_synonym ClipperPaths = "ClipperPath list"

datatype JoinType = Round | Square | Miter

record Clipper =
  executeUnion :: "ClipperPaths \<Rightarrow> ClipperPaths"
  executeIntersection :: "ClipperPaths \<Rightarrow> ClipperPaths \<Rightarrow> ClipperPaths"
  executeDifference :: "ClipperPaths \<Rightarrow> ClipperPaths \<Rightarrow> ClipperPaths"
  executeXor :: "ClipperPaths \<Rightarrow> ClipperPaths \<Rightarrow> ClipperPaths"
  inflatePaths :: "ClipperPaths \<Rightarrow> real \<Rightarrow> JoinType \<Rightarrow> ClipperPaths"
  simplifyPaths :: "ClipperPaths \<Rightarrow> real \<Rightarrow> ClipperPaths"

definition toClipperPath :: "Polygon \<Rightarrow> ClipperPath" where
  "toClipperPath poly = map (\<lambda>p. \<lparr>cx = x p, cy = y p\<rparr>) poly"

definition toClipperPaths :: "Polygon list \<Rightarrow> ClipperPaths" where
  "toClipperPaths polygons = map toClipperPath polygons"

definition fromClipperPath :: "ClipperPath \<Rightarrow> Polygon" where
  "fromClipperPath path = map (\<lambda>p. \<lparr>x = cx p, y = cy p\<rparr>) path"

subsection \<open>PolygonBoolean\<close>

text \<open>
  \<^verbatim>\<open>classifyResult\<close>: contours of positive signed area become outer boundaries, in
  input order; for each of them the contours of negative signed area are scanned in input
  order, and a contour whose first vertex passes \<^verbatim>\<open>pointInPolygon\<close> against the outer
  boundary is reversed and pushed onto that region's holes. The function returns a
  \<^verbatim>\<open>MultiPolygon\<close> and has no other channel: it neither throws nor logs.
\<close>

definition classifyResult :: "ClipperPaths \<Rightarrow> MultiPolygon" where
  "classifyResult paths =
     (if paths = [] then []
      else
        (let allPolygons = map fromClipperPath paths;
             areas = map signedArea allPolygons;
             outerIndices = filter (\<lambda>i. areas ! i > 0) [0..<length areas];
             holeIndices = filter (\<lambda>i. \<not> areas ! i > 0 \<and> areas ! i < 0) [0..<length areas]
         in map (\<lambda>outerIdx.
                  \<lparr>outer = allPolygons ! outerIdx,
                   holes = concat (map (\<lambda>holeIdx.
                      if allPolygons ! holeIdx \<noteq> [] then
                        (let testPoint = allPolygons ! holeIdx ! 0 in
                         if pointInPolygon testPoint (allPolygons ! outerIdx)
                         then [rev (allPolygons ! holeIdx)] else [])
                      else []) holeIndices)\<rparr>)
                outerIndices))"

definition unionAll :: "Clipper \<Rightarrow> Polygon list \<Rightarrow> MultiPolygon" where
  "unionAll clipper polygons =
     (if polygons = [] then []
      else if length polygons = 1 then
        [\<lparr>outer = ensureOrientation (polygons ! 0) True, holes = []\<rparr>]
      else classifyResult (executeUnion clipper (toClipperPaths polygons)))"

definition unionTwo :: "Clipper \<Rightarrow> Polygon \<Rightarrow> Polygon \<Rightarrow> MultiPolygon" where
  "unionTwo clipper a b = unionAll clipper [a, b]"





subsection \<open>PolygonProcessor: simplify and the whole-MultiPolygon passes\<close>




subsection \<open>PolygonStats\<close>



section \<open>Terrain and visibility (radar\_coverage.hpp)\<close>

record TerrainObstacle =
  center :: Point2D
  rx :: real
  ry :: real
  obs_height :: real
  obs_name :: string

text \<open>
  \<^verbatim>\<open>getElevationAt\<close> divides by the radii. With a radius 0 the quotient is NaN when the
  numerator is 0 too, and an infinity otherwise. A NaN makes \<^verbatim>\<open>distSq >= 1.0\<close> false and
  the product returned a NaN: the value \<open>None\<close>. An infinity, with no NaN beside it, makes
  \<^verbatim>\<open>distSq\<close> infinite, so the function returns 0.
\<close>

definition getElevationAt :: "TerrainObstacle \<Rightarrow> Point2D \<Rightarrow> real option" where
  "getElevationAt obs p =
     (let ax = x p - x (center obs);
          ay = y p - y (center obs)
      in if (rx obs = 0 \<and> ax = 0) \<or> (ry obs = 0 \<and> ay = 0) then None
         else if rx obs = 0 \<or> ry obs = 0 then Some 0
         else
           (let dx = ax / rx obs;
                dy = ay / ry obs;
                distSq = dx * dx + dy * dy
            in if distSq \<ge> 1 then Some 0 else Some (obs_height obs * exp (- 3 * distSq))))"

record TerrainModel =
  obstacles :: "TerrainObstacle list"
  custom_elevation :: "(real \<Rightarrow> real \<Rightarrow> real) option"
  earth_radius :: real

text \<open>The constructor \<^verbatim>\<open>TerrainModel()\<close>: no obstacle, no custom field, radius 6371000.\<close>

definition newTerrainModel :: TerrainModel where
  "newTerrainModel = \<lparr>obstacles = [], custom_elevation = None, earth_radius = 6371000\<rparr>"

text \<open>
  \<^verbatim>\<open>h = std::max(h, e)\<close> is \<^verbatim>\<open>(h < e) ? e : h\<close>: a NaN for \<^verbatim>\<open>e\<close> leaves \<^verbatim>\<open>h\<close> as it is.
\<close>

definition getElevation :: "TerrainModel \<Rightarrow> real \<Rightarrow> real \<Rightarrow> real" where
  "getElevation T px py =
     foldl (\<lambda>h obs. case getElevationAt obs \<lparr>x = px, y = py\<rparr> of
                       None \<Rightarrow> h
                     | Some e \<Rightarrow> max h e)
           (case custom_elevation T of Some f \<Rightarrow> f px py | None \<Rightarrow> 0)
           (obstacles T)"

text \<open>
  The sampling loop of \<^verbatim>\<open>isLineOfSightBlocked\<close>:
  \<^verbatim>\<open>for (int i = 1; i < numSamples; i++) { ...; if (terrainH > effectiveLos) return true; }\<close>
  followed by \<^verbatim>\<open>return false\<close>.
\<close>

function losLoop ::
  "TerrainModel \<Rightarrow> Point2D \<Rightarrow> real \<Rightarrow> real \<Rightarrow> Point2D \<Rightarrow> real \<Rightarrow> int \<Rightarrow> int \<Rightarrow> bool" where
  "losLoop T radarPos radarHeight targetHeight step totalDist numSamples i =
     (if i < numSamples then
        (let samplePos = point_add radarPos (point_scale step (real_of_int i));
             progress = real_of_int i / real_of_int numSamples;
             losHeight = radarHeight * (1 - progress) + targetHeight * progress;
             arcDist = progress * totalDist;
             curvatureDrop = (arcDist * arcDist) / (2 * earth_radius T);
             effectiveLos = losHeight - curvatureDrop * 0.5;
             terrainH = getElevation T (x samplePos) (y samplePos)
         in if terrainH > effectiveLos then True
            else losLoop T radarPos radarHeight targetHeight step totalDist numSamples (i + 1))
      else False)"
  by pat_completeness auto
termination
  by (relation "measure (\<lambda>(T, radarPos, radarHeight, targetHeight, step, totalDist, numSamples, i).
                  nat (numSamples - i))") auto

definition isLineOfSightBlocked ::
  "TerrainModel \<Rightarrow> Point2D \<Rightarrow> real \<Rightarrow> Point2D \<Rightarrow> real \<Rightarrow> int \<Rightarrow> bool" where
  "isLineOfSightBlocked T radarPos radarHeight targetPos targetHeight numSamples =
     (let delta = point_sub targetPos radarPos;
          totalDist = point_length delta
      in if totalDist < 1 / 1000000 then False
         else
           (let step = point_scale delta (1 / real_of_int numSamples)
            in losLoop T radarPos radarHeight targetHeight step totalDist numSamples 1))"

subsection \<open>Rounding to the nearest double\<close>

text \<open>
  IEEE 754 binary64, round to nearest, ties to even, of a real number: the spacing of
  the doubles around \<open>x\<close> is \<open>2\<^sup>-\<^sup>1\<^sup>0\<^sup>7\<^sup>4\<close> below \<open>2\<^sup>-\<^sup>1\<^sup>0\<^sup>2\<^sup>2\<close> (the subnormal range) and
  \<open>2\<^sup>e\<^sup>-\<^sup>5\<^sup>2\<close> for \<open>2\<^sup>e \<le> |x| < 2\<^sup>e\<^sup>+\<^sup>1\<close>. Overflow to an infinity is not modelled.
\<close>

definition roundHalfEven :: "real \<Rightarrow> int" where
  "roundHalfEven z =
     (let f = \<lfloor>z\<rfloor>
      in if z - of_int f < 1 / 2 then f
         else if 1 / 2 < z - of_int f then f + 1
         else if even f then f else f + 1)"

definition ulpDouble :: "real \<Rightarrow> real" where
  "ulpDouble v =
     (if \<bar>v\<bar> < 2 powr (- 1022) then 2 powr (- 1074)
      else 2 powr (of_int \<lfloor>log 2 \<bar>v\<bar>\<rfloor> - 52))"

definition roundDouble :: "real \<Rightarrow> real" where
  "roundDouble v = of_int (roundHalfEven (v / ulpDouble v)) * ulpDouble v"

subsection \<open>The range search\<close>

text \<open>
  \<^verbatim>\<open>computeMaxVisibleRange\<close>: the loop \<^verbatim>\<open>while (hi - lo > maxRange * 0.01)\<close> over the
  pair \<open>(lo, hi)\<close>, with \<^verbatim>\<open>mid = (lo + hi) / 2.0\<close> in its body. Each of these operations
  yields a double, so each is rounded; the literal \<^verbatim>\<open>0.01\<close> is the double nearest to
  \<open>1/100\<close>. The loop is \<^const>\<open>while_option\<close> of its condition and its body, so a run
  that never leaves the loop is the value \<open>None\<close>. The call of \<^verbatim>\<open>isLineOfSightBlocked\<close>
  uses the default \<^verbatim>\<open>numSamples = 40\<close>.
\<close>

definition rangeCond :: "real \<Rightarrow> real \<times> real \<Rightarrow> bool" where
  "rangeCond maxRange =
     (\<lambda>(lo, hi). roundDouble (hi - lo) > roundDouble (maxRange * roundDouble (1 / 100)))"

definition rangeStep ::
  "TerrainModel \<Rightarrow> Point2D \<Rightarrow> real \<Rightarrow> Point2D \<Rightarrow> real \<Rightarrow> real \<times> real \<Rightarrow> real \<times> real" where
  "rangeStep T radarPos radarHeight dir targetHeight =
     (\<lambda>(lo, hi).
        (let mid = roundDouble (roundDouble (lo + hi) / 2);
             target = point_add radarPos (point_scale dir mid)
         in if isLineOfSightBlocked T radarPos radarHeight target targetHeight 40
            then (lo, mid) else (mid, hi)))"

definition computeMaxVisibleRange ::
  "TerrainModel \<Rightarrow> Point2D \<Rightarrow> real \<Rightarrow> real \<Rightarrow> real \<Rightarrow> real \<Rightarrow> real option" where
  "computeMaxVisibleRange T radarPos radarHeight azimuth maxRange targetHeight =
     (let dir = \<lparr>x = cos azimuth, y = sin azimuth\<rparr>
      in map_option fst
           (while_option (rangeCond maxRange)
              (rangeStep T radarPos radarHeight dir targetHeight) (0, maxRange)))"

subsection \<open>RadarParams and generateCoveragePolygon\<close>

record RadarParams =
  radar_id :: int
  radar_name :: string
  position :: Point2D
  radar_range :: real
  radar_height :: real
  minElevation :: real
  maxElevation :: real
  azimuthStart :: real
  azimuthEnd :: real

text \<open>The five-argument constructor: a full-circle sensor.\<close>

definition newRadarParams :: "int \<Rightarrow> string \<Rightarrow> Point2D \<Rightarrow> real \<Rightarrow> real \<Rightarrow> RadarParams" where
  "newRadarParams i n pos r h =
     \<lparr>radar_id = i, radar_name = n, position = pos, radar_range = r, radar_height = h,
      minElevation = - 0.01, maxElevation = 0.7, azimuthStart = 0, azimuthEnd = 2 * pi\<rparr>"





subsection \<open>CoverageMergeManager\<close>

record CoverageMergeManager =
  terrain :: TerrainModel
  radars :: "RadarParams list"
  individualCoverages :: "Polygon list"
  mergedCoverage :: MultiPolygon
  numRays :: int
  simplifyEpsilon :: real
  smoothIterations :: int
  dirty :: bool

definition newCoverageMergeManager :: CoverageMergeManager where
  "newCoverageMergeManager =
     \<lparr>terrain = newTerrainModel, radars = [], individualCoverages = [], mergedCoverage = [],
      numRays = 72, simplifyEpsilon = 5, smoothIterations = 1, dirty = True\<rparr>"

definition addRadar :: "RadarParams \<Rightarrow> CoverageMergeManager \<Rightarrow> CoverageMergeManager" where
  "addRadar radar m = m\<lparr>radars := radars m @ [radar], dirty := True\<rparr>"

text \<open>
  \<^verbatim>\<open>updateRadar\<close>: the first radar with the given id is overwritten, the flag is set and
  the loop is left; without a match nothing is assigned. The loop returns the new radar
  list when it found a match and \<open>None\<close> otherwise.
\<close>

fun updateRadarLoop :: "int \<Rightarrow> RadarParams \<Rightarrow> RadarParams list \<Rightarrow> RadarParams list option" where
  "updateRadarLoop i params [] = None"
| "updateRadarLoop i params (r # rs) =
     (if radar_id r = i then Some (params # rs)
      else map_option (\<lambda>rs'. r # rs') (updateRadarLoop i params rs))"

definition updateRadar :: "int \<Rightarrow> RadarParams \<Rightarrow> CoverageMergeManager \<Rightarrow> CoverageMergeManager" where
  "updateRadar i params m =
     (case updateRadarLoop i params (radars m) of
        None \<Rightarrow> m
      | Some rs' \<Rightarrow> m\<lparr>radars := rs', dirty := True\<rparr>)"












section \<open>Auxiliary notions and concrete inputs\<close>


definition bigSquarePath :: ClipperPath where
  "bigSquarePath = [\<lparr>cx = 0, cy = 0\<rparr>, \<lparr>cx = 4, cy = 0\<rparr>, \<lparr>cx = 4, cy = 4\<rparr>, \<lparr>cx = 0, cy = 4\<rparr>]"

definition innerHolePath :: ClipperPath where
  "innerHolePath = [\<lparr>cx = 1, cy = 1\<rparr>, \<lparr>cx = 1, cy = 2\<rparr>, \<lparr>cx = 2, cy = 2\<rparr>, \<lparr>cx = 2, cy = 1\<rparr>]"

definition farHolePath :: ClipperPath where
  "farHolePath = [\<lparr>cx = 10, cy = 10\<rparr>, \<lparr>cx = 10, cy = 11\<rparr>, \<lparr>cx = 11, cy = 11\<rparr>, \<lparr>cx = 11, cy = 10\<rparr>]"




text \<open>
  The test of one sample of \<open>losLoop\<close>, written as in the loop body, with the step and the
  distance that \<open>isLineOfSightBlocked\<close> passes to the loop.
\<close>

definition sampleBlocked ::
  "TerrainModel \<Rightarrow> Point2D \<Rightarrow> real \<Rightarrow> Point2D \<Rightarrow> real \<Rightarrow> int \<Rightarrow> int \<Rightarrow> bool" where
  "sampleBlocked T radarPos radarHeight targetPos targetHeight numSamples i =
     (let delta = point_sub targetPos radarPos;
          totalDist = point_length delta;
          step = point_scale delta (1 / real_of_int numSamples);
          samplePos = point_add radarPos (point_scale step (real_of_int i));
          progress = real_of_int i / real_of_int numSamples;
          losHeight = radarHeight * (1 - progress) + targetHeight * progress;
          arcDist = progress * totalDist;
          curvatureDrop = (arcDist * arcDist) / (2 * earth_radius T);
          effectiveLos = losHeight - curvatureDrop * 0.5;
          terrainH = getElevation T (x samplePos) (y samplePos)
      in terrainH > effectiveLos)"


text \<open>A terrain that is 1000 high everywhere, an omnidirectional radar of range 0 at the
  origin, a sector radar, and a manager holding the first radar.\<close>

definition wallTerrain :: TerrainModel where
  "wallTerrain = newTerrainModel\<lparr>custom_elevation := Some (\<lambda>px py. 1000)\<rparr>"

definition radarA :: RadarParams where
  "radarA = newRadarParams 1 ''A'' \<lparr>x = 0, y = 0\<rparr> 0 10"


definition managerA :: CoverageMergeManager where
  "managerA = addRadar radarA newCoverageMergeManager"


definition minSubnormal :: real where
  "minSubnormal = 2 powr (- 1074)"

section \<open>The region classifier\<close>

lemma concat_map_if_singleton:
  "concat (map (\<lambda>i. if P i then [f i] else []) xs) = map f (filter P xs)"
  by (induction xs) simp_all

lemma map_nth_filter_upt:
  "map ((!) xs) (filter (\<lambda>i. P (xs ! i)) [0..<length xs]) = filter P xs"
proof -
  have "filter P (map ((!) xs) [0..<length xs]) =
        map ((!) xs) (filter (P \<circ> (!) xs) [0..<length xs])"
    by (rule filter_map)
  then show ?thesis by (simp add: map_nth comp_def)
qed

lemma signedArea_neg_nonempty: "signedArea h < 0 \<Longrightarrow> h \<noteq> []"
  by (auto simp: signedArea_def)

lemma classifyResult_eq:
  "classifyResult paths =
     map (\<lambda>outr. \<lparr>outer = outr,
                  holes = map rev (filter (\<lambda>h. signedArea h < 0 \<and> pointInPolygon (h ! 0) outr)
                                     (map fromClipperPath paths))\<rparr>)
         (filter (\<lambda>p. 0 < signedArea p) (map fromClipperPath paths))"
proof -
  define allp where "allp = map fromClipperPath paths"
  define region where "region = (\<lambda>outr. \<lparr>outer = outr,
      holes = map rev (filter (\<lambda>h. signedArea h < 0 \<and> pointInPolygon (h ! 0) outr) allp)\<rparr>)"
  have holes_eq: "concat (map (\<lambda>holeIdx.
            if allp ! holeIdx \<noteq> [] then
              (let testPoint = allp ! holeIdx ! 0 in
               if pointInPolygon testPoint outr then [rev (allp ! holeIdx)] else [])
            else [])
          (filter (\<lambda>i. \<not> map signedArea allp ! i > 0 \<and> map signedArea allp ! i < 0)
                  [0..<length (map signedArea allp)])) =
        map rev (filter (\<lambda>h. signedArea h < 0 \<and> pointInPolygon (h ! 0) outr) allp)" for outr
  proof -
    have idx: "filter (\<lambda>i. \<not> map signedArea allp ! i > 0 \<and> map signedArea allp ! i < 0)
                  [0..<length (map signedArea allp)] =
               filter (\<lambda>i. signedArea (allp ! i) < 0) [0..<length allp]"
      by (rule filter_cong) auto
    have "concat (map (\<lambda>holeIdx.
            if allp ! holeIdx \<noteq> [] then
              (let testPoint = allp ! holeIdx ! 0 in
               if pointInPolygon testPoint outr then [rev (allp ! holeIdx)] else [])
            else [])
          (filter (\<lambda>i. signedArea (allp ! i) < 0) [0..<length allp])) =
        concat (map (\<lambda>h. if h \<noteq> [] \<and> pointInPolygon (h ! 0) outr then [rev h] else [])
          (map ((!) allp) (filter (\<lambda>i. signedArea (allp ! i) < 0) [0..<length allp])))"
      by (auto simp: comp_def Let_def intro!: arg_cong [where f = concat] map_cong)
    also have "\<dots> = concat (map (\<lambda>h. if h \<noteq> [] \<and> pointInPolygon (h ! 0) outr then [rev h] else [])
          (filter (\<lambda>h. signedArea h < 0) allp))"
      by (simp only: map_nth_filter_upt [of allp "\<lambda>h. signedArea h < 0"])
    also have "\<dots> = map rev (filter (\<lambda>h. h \<noteq> [] \<and> pointInPolygon (h ! 0) outr)
          (filter (\<lambda>h. signedArea h < 0) allp))"
      by (rule concat_map_if_singleton)
    also have "\<dots> = map rev (filter (\<lambda>h. signedArea h < 0 \<and> pointInPolygon (h ! 0) outr) allp)"
      by (auto dest: signedArea_neg_nonempty intro!: arg_cong [where f = "map rev"] filter_cong)
    finally show ?thesis by (simp only: idx)
  qed
  have outers_eq: "map ((!) allp) (filter (\<lambda>i. map signedArea allp ! i > 0)
                  [0..<length (map signedArea allp)]) = filter (\<lambda>p. 0 < signedArea p) allp"
  proof -
    have "filter (\<lambda>i. map signedArea allp ! i > 0) [0..<length (map signedArea allp)] =
          filter (\<lambda>i. 0 < signedArea (allp ! i)) [0..<length allp]"
      by (rule filter_cong) auto
    then show ?thesis by (simp only: map_nth_filter_upt [of allp "\<lambda>p. 0 < signedArea p"])
  qed
  show ?thesis
  proof (cases "paths = []")
    case True
    then show ?thesis by (simp add: classifyResult_def)
  next
    case False
    then have "classifyResult paths =
        map (\<lambda>outerIdx. region (allp ! outerIdx))
          (filter (\<lambda>i. map signedArea allp ! i > 0) [0..<length (map signedArea allp)])"
      unfolding classifyResult_def Let_def region_def allp_def [symmetric]
      by (simp only: holes_eq [unfolded Let_def] if_False)
    also have "\<dots> = map region (map ((!) allp)
          (filter (\<lambda>i. map signedArea allp ! i > 0) [0..<length (map signedArea allp)]))"
      by (simp add: comp_def)
    also have "\<dots> = map region (filter (\<lambda>p. 0 < signedArea p) allp)"
      by (simp only: outers_eq)
    finally show ?thesis by (simp add: region_def allp_def)
  qed
qed

section \<open>Corner-cutting smoothing\<close>








section \<open>Degenerate polygons\<close>

text \<open>
  Claim C9. A polygon with fewer than 3 vertices has signed area 0 and area 0, and a
  polygon with fewer than 2 vertices has perimeter 0. The three functions are total: they
  read no vertex of a degenerate polygon and have no failing branch.
\<close>

theorem degenerate_measures_zero:
  "(length poly < 3 \<longrightarrow> signedArea poly = 0 \<and> area poly = 0) \<and>
   (length poly < 2 \<longrightarrow> perimeter poly = 0)"
  by (simp add: signedArea_def area_def perimeter_def)

theorem degenerate_measures_zero_witness:
  "length [\<lparr>x = 3, y = 4\<rparr>] < 3 \<and> signedArea [\<lparr>x = 3, y = 4\<rparr>] = 0 \<and> area [\<lparr>x = 3, y = 4\<rparr>] = 0 \<and>
   length [\<lparr>x = 3, y = 4\<rparr>] < 2 \<and> perimeter [\<lparr>x = 3, y = 4\<rparr>] = 0"
  using degenerate_measures_zero [of "[\<lparr>x = 3, y = 4\<rparr>]"] by simp

section \<open>Holes without an outer boundary\<close>

text \<open>
  Claim C1 (the code differs). \<open>classifyResult\<close> has no way to flag anything. Here the
  contour list holds a counter-clockwise 4 by 4 square and a clockwise unit square far
  outside it: the clockwise contour has negative area, its test vertex lies in no outer
  boundary, and the result is the one obtained without that contour.
\<close>

theorem classifyResult_drops_orphan_hole:
  "signedArea (fromClipperPath farHolePath) < 0 \<and>
   \<not> pointInPolygon (fromClipperPath farHolePath ! 0) (fromClipperPath bigSquarePath) \<and>
   classifyResult [bigSquarePath, farHolePath] =
     [\<lparr>outer = fromClipperPath bigSquarePath, holes = []\<rparr>] \<and>
   classifyResult [bigSquarePath, farHolePath] = classifyResult [bigSquarePath]"
  by code_simp

text \<open>
  Claim C1, as the code has it. The outer boundaries of the result are the positive-area
  contours in input order; the holes of a region are exactly the reversed negative-area
  contours whose first vertex passes \<open>pointInPolygon\<close> against that region's outer
  boundary, in input order; hence a contour whose first vertex lies inside no outer
  boundary of the result is stored in no region, and nothing is reported.
\<close>

theorem classifyResult_holes_by_containment:
  "map outer (classifyResult paths) =
     filter (\<lambda>p. 0 < signedArea p) (map fromClipperPath paths) \<and>
   (\<forall>r \<in> set (classifyResult paths).
      holes r = map rev (filter (\<lambda>h. signedArea h < 0 \<and> pointInPolygon (h ! 0) (outer r))
                           (map fromClipperPath paths))) \<and>
   (\<forall>h \<in> set (map fromClipperPath paths).
      (\<forall>r \<in> set (classifyResult paths). \<not> pointInPolygon (h ! 0) (outer r)) \<longrightarrow>
      (\<forall>r \<in> set (classifyResult paths). rev h \<notin> set (holes r)))"
proof -
  have a: "map outer (classifyResult paths) =
     filter (\<lambda>p. 0 < signedArea p) (map fromClipperPath paths)"
    by (subst classifyResult_eq) (simp add: comp_def)
  have b: "\<forall>r \<in> set (classifyResult paths).
      holes r = map rev (filter (\<lambda>h. signedArea h < 0 \<and> pointInPolygon (h ! 0) (outer r))
                           (map fromClipperPath paths))"
  proof
    fix r
    assume "r \<in> set (classifyResult paths)"
    then show "holes r = map rev (filter (\<lambda>h. signedArea h < 0 \<and> pointInPolygon (h ! 0) (outer r))
                           (map fromClipperPath paths))"
      by (subst (asm) classifyResult_eq) auto
  qed
  have c: "\<forall>h \<in> set (map fromClipperPath paths).
      (\<forall>r \<in> set (classifyResult paths). \<not> pointInPolygon (h ! 0) (outer r)) \<longrightarrow>
      (\<forall>r \<in> set (classifyResult paths). rev h \<notin> set (holes r))"
  proof (intro ballI impI)
    fix h r
    assume no: "\<forall>r \<in> set (classifyResult paths). \<not> pointInPolygon (h ! 0) (outer r)"
       and r: "r \<in> set (classifyResult paths)"
    show "rev h \<notin> set (holes r)"
    proof
      assume "rev h \<in> set (holes r)"
      with b r obtain h' where "rev h' = rev h" "pointInPolygon (h' ! 0) (outer r)"
        by auto
      with no r show False by simp
    qed
  qed
  from a b c show ?thesis by blast
qed

theorem classifyResult_holes_by_containment_witness:
  "classifyResult [bigSquarePath, innerHolePath, farHolePath] =
     [\<lparr>outer = fromClipperPath bigSquarePath, holes = [rev (fromClipperPath innerHolePath)]\<rparr>] \<and>
   rev (fromClipperPath farHolePath) \<notin>
     set (holes (classifyResult [bigSquarePath, innerHolePath, farHolePath] ! 0))"
proof -
  let ?paths = "[bigSquarePath, innerHolePath, farHolePath]"
  note inst = classifyResult_holes_by_containment [of ?paths]
  have outers: "filter (\<lambda>p. 0 < signedArea p) (map fromClipperPath ?paths) =
                [fromClipperPath bigSquarePath]"
    by code_simp
  have inside: "filter (\<lambda>h. signedArea h < 0 \<and> pointInPolygon (h ! 0) (fromClipperPath bigSquarePath))
                  (map fromClipperPath ?paths) = [fromClipperPath innerHolePath]"
    by code_simp
  have o: "map outer (classifyResult ?paths) = [fromClipperPath bigSquarePath]"
    using inst outers by simp
  then obtain r where r: "classifyResult ?paths = [r]" "outer r = fromClipperPath bigSquarePath"
    by (cases "classifyResult ?paths") auto
  from inst r inside have "holes r = [rev (fromClipperPath innerHolePath)]" by simp
  with r(2) have "r = \<lparr>outer = fromClipperPath bigSquarePath,
                       holes = [rev (fromClipperPath innerHolePath)]\<rparr>"
    by simp
  with r(1) have c: "classifyResult ?paths =
     [\<lparr>outer = fromClipperPath bigSquarePath, holes = [rev (fromClipperPath innerHolePath)]\<rparr>]"
    by simp
  have "rev (fromClipperPath farHolePath) \<noteq> rev (fromClipperPath innerHolePath)"
    by code_simp
  with c show ?thesis by simp
qed

section \<open>Orientation of classified regions\<close>









section \<open>Union of one polygon, and of a polygon with itself\<close>




section \<open>Line of sight\<close>

lemma losLoop_unfold:
  "losLoop T rp rh th (point_scale (point_sub tp rp) (1 / real_of_int n))
      (point_length (point_sub tp rp)) n i =
   (if i < n then
      (if sampleBlocked T rp rh tp th n i then True
       else losLoop T rp rh th (point_scale (point_sub tp rp) (1 / real_of_int n))
              (point_length (point_sub tp rp)) n (i + 1))
    else False)"
  by (subst losLoop.simps) (simp only: sampleBlocked_def Let_def)

lemma losLoop_iff:
  "losLoop T rp rh th (point_scale (point_sub tp rp) (1 / real_of_int n))
      (point_length (point_sub tp rp)) n i =
   (\<exists>k. i \<le> k \<and> k < n \<and> sampleBlocked T rp rh tp th n k)"
proof (induction "nat (n - i)" arbitrary: i)
  case 0
  then have "\<not> i < n" by simp
  then show ?case by (subst losLoop_unfold) auto
next
  case (Suc m)
  then have lt: "i < n" and m: "m = nat (n - (i + 1))" by simp_all
  show ?case
  proof (cases "sampleBlocked T rp rh tp th n i")
    case True
    with lt show ?thesis by (subst losLoop_unfold) auto
  next
    case False
    have "(\<exists>k. i + 1 \<le> k \<and> k < n \<and> sampleBlocked T rp rh tp th n k) =
          (\<exists>k. i \<le> k \<and> k < n \<and> sampleBlocked T rp rh tp th n k)"
    proof
      assume "\<exists>k. i + 1 \<le> k \<and> k < n \<and> sampleBlocked T rp rh tp th n k"
      then obtain k where "i + 1 \<le> k" "k < n" "sampleBlocked T rp rh tp th n k" by blast
      moreover from this have "i \<le> k" by simp
      ultimately show "\<exists>k. i \<le> k \<and> k < n \<and> sampleBlocked T rp rh tp th n k" by blast
    next
      assume "\<exists>k. i \<le> k \<and> k < n \<and> sampleBlocked T rp rh tp th n k"
      then obtain k where k: "i \<le> k" "k < n" "sampleBlocked T rp rh tp th n k" by blast
      with False have "k \<noteq> i" by auto
      with k have "i + 1 \<le> k" by simp
      with k show "\<exists>k. i + 1 \<le> k \<and> k < n \<and> sampleBlocked T rp rh tp th n k" by blast
    qed
    with Suc.hyps(1) [OF m] lt False show ?thesis
      by (subst losLoop_unfold) simp
  qed
qed

lemma isLineOfSightBlocked_iff:
  "isLineOfSightBlocked T rp rh tp th n =
     (\<not> point_length (point_sub tp rp) < 1 / 1000000 \<and>
      (\<exists>i. 1 \<le> i \<and> i < n \<and> sampleBlocked T rp rh tp th n i))"
  by (simp add: isLineOfSightBlocked_def Let_def losLoop_iff del: losLoop.simps)

text \<open>
  Claim C2 (the code differs). With \<open>numSamples = 1\<close> the loop \<open>i = 1; i < 1\<close> has no
  iteration, so no terrain point is looked at. Over a terrain that is 1000 high everywhere,
  with observer and target one unit apart and both at height 0, every interior point rises
  above the line of sight, yet the result is \<open>false\<close>.
\<close>

theorem isLineOfSightBlocked_one_sample_counterexample:
  "\<not> isLineOfSightBlocked wallTerrain \<lparr>x = 0, y = 0\<rparr> 0 \<lparr>x = 1, y = 0\<rparr> 0 1 \<and>
   getElevation wallTerrain (1 / 2) 0 = 1000 \<and>
   \<not> point_length (point_sub \<lparr>x = 1, y = 0\<rparr> \<lparr>x = 0, y = 0\<rparr>) < 1 / 1000000"
  by (simp add: isLineOfSightBlocked_iff wallTerrain_def newTerrainModel_def getElevation_def
        point_length_def point_sub_def)

text \<open>
  Claim C2, as the code has it. The samples are the \<open>numSamples - 1\<close> interior points at
  progress \<open>t = i / numSamples\<close>, \<open>i = 1, \<dots>, numSamples - 1\<close> (none when
  \<open>numSamples \<le> 1\<close>). The result is \<open>true\<close> iff observer and target are at least
  \<open>10\<^sup>-\<^sup>6\<close> apart and at one of these samples the terrain is higher than the interpolated
  line-of-sight height minus \<open>0.5 \<cdot> (t \<cdot> totalDist)\<^sup>2 / (2 \<cdot> earthRadius)\<close>; it is
  \<open>false\<close> when the two are closer than \<open>10\<^sup>-\<^sup>6\<close>.
\<close>

theorem isLineOfSightBlocked_samples:
  "isLineOfSightBlocked T radarPos radarHeight targetPos targetHeight numSamples =
     (\<not> point_length (point_sub targetPos radarPos) < 1 / 1000000 \<and>
      (\<exists>i. 1 \<le> i \<and> i < numSamples \<and>
         (let t = real_of_int i / real_of_int numSamples;
              totalDist = point_length (point_sub targetPos radarPos)
          in getElevation T (x radarPos + t * (x targetPos - x radarPos))
                            (y radarPos + t * (y targetPos - y radarPos)) >
             radarHeight * (1 - t) + targetHeight * t
               - (t * totalDist)\<^sup>2 / (2 * earth_radius T) * 0.5))) \<and>
   (point_length (point_sub targetPos radarPos) < 1 / 1000000 \<longrightarrow>
      \<not> isLineOfSightBlocked T radarPos radarHeight targetPos targetHeight numSamples) \<and>
   (numSamples \<le> 1 \<longrightarrow>
      \<not> isLineOfSightBlocked T radarPos radarHeight targetPos targetHeight numSamples)"
proof -
  have s: "sampleBlocked T radarPos radarHeight targetPos targetHeight numSamples i =
         (let t = real_of_int i / real_of_int numSamples;
              totalDist = point_length (point_sub targetPos radarPos)
          in getElevation T (x radarPos + t * (x targetPos - x radarPos))
                            (y radarPos + t * (y targetPos - y radarPos)) >
             radarHeight * (1 - t) + targetHeight * t
               - (t * totalDist)\<^sup>2 / (2 * earth_radius T) * 0.5)" for i
    by (simp add: sampleBlocked_def Let_def point_add_def point_scale_def point_sub_def
          power2_eq_square mult.commute mult.left_commute)
  show ?thesis
    unfolding isLineOfSightBlocked_iff s by auto
qed

theorem isLineOfSightBlocked_samples_witness:
  "point_length (point_sub \<lparr>x = 2, y = 3\<rparr> \<lparr>x = 2, y = 3\<rparr>) < 1 / 1000000 \<and>
   \<not> isLineOfSightBlocked wallTerrain \<lparr>x = 2, y = 3\<rparr> 10 \<lparr>x = 2, y = 3\<rparr> 0 40 \<and>
   (1::int) \<le> 1 \<and>
   \<not> isLineOfSightBlocked wallTerrain \<lparr>x = 0, y = 0\<rparr> 0 \<lparr>x = 1, y = 0\<rparr> 0 1 \<and>
   isLineOfSightBlocked wallTerrain \<lparr>x = 0, y = 0\<rparr> 0 \<lparr>x = 1, y = 0\<rparr> 0 2"
proof -
  have h: "point_length (point_sub \<lparr>x = 2, y = 3\<rparr> \<lparr>x = 2, y = 3\<rparr>) < 1 / 1000000"
    by (simp add: point_length_def point_sub_def)
  from h isLineOfSightBlocked_samples [of wallTerrain "\<lparr>x = 2, y = 3\<rparr>" 10 "\<lparr>x = 2, y = 3\<rparr>" 0 40]
  have a: "\<not> isLineOfSightBlocked wallTerrain \<lparr>x = 2, y = 3\<rparr> 10 \<lparr>x = 2, y = 3\<rparr> 0 40"
    by blast
  from isLineOfSightBlocked_samples [of wallTerrain "\<lparr>x = 0, y = 0\<rparr>" 0 "\<lparr>x = 1, y = 0\<rparr>" 0 1]
  have b: "\<not> isLineOfSightBlocked wallTerrain \<lparr>x = 0, y = 0\<rparr> 0 \<lparr>x = 1, y = 0\<rparr> 0 1"
    by simp
  have d: "point_length (point_sub \<lparr>x = 1, y = 0\<rparr> \<lparr>x = 0, y = 0\<rparr>) = 1"
    by (simp add: point_length_def point_sub_def)
  have e: "getElevation wallTerrain px py = 1000" for px py
    by (simp add: getElevation_def wallTerrain_def newTerrainModel_def)
  have er: "earth_radius wallTerrain = 6371000"
    by (simp add: wallTerrain_def newTerrainModel_def)
  have "\<exists>i::int. 1 \<le> i \<and> i < 2 \<and>
         (let t = real_of_int i / real_of_int 2;
              totalDist = point_length (point_sub \<lparr>x = 1, y = 0\<rparr> \<lparr>x = 0, y = 0\<rparr>)
          in getElevation wallTerrain (x \<lparr>x = 0, y = 0\<rparr> + t * (x \<lparr>x = 1, y = 0\<rparr> - x \<lparr>x = 0, y = 0\<rparr>))
                            (y \<lparr>x = 0, y = 0\<rparr> + t * (y \<lparr>x = 1, y = 0\<rparr> - y \<lparr>x = 0, y = 0\<rparr>)) >
             0 * (1 - t) + 0 * t
               - (t * totalDist)\<^sup>2 / (2 * earth_radius wallTerrain) * 0.5)"
    by (rule exI [of _ 1]) (simp add: d e er Let_def power2_eq_square)
  with d isLineOfSightBlocked_samples [of wallTerrain "\<lparr>x = 0, y = 0\<rparr>" 0 "\<lparr>x = 1, y = 0\<rparr>" 0 2]
  have c: "isLineOfSightBlocked wallTerrain \<lparr>x = 0, y = 0\<rparr> 0 \<lparr>x = 1, y = 0\<rparr> 0 2"
    by simp
  from h a b c show ?thesis by simp
qed

section \<open>The range search in double arithmetic\<close>

lemma roundHalfEven_small: "0 \<le> z \<Longrightarrow> z < 1 / 2 \<Longrightarrow> roundHalfEven z = 0"
proof -
  assume a: "0 \<le> z" "z < 1 / 2"
  then have "\<lfloor>z\<rfloor> = 0" by (simp add: floor_eq_iff)
  with a show ?thesis by (simp add: roundHalfEven_def)
qed

lemma roundHalfEven_half: "roundHalfEven (1 / 2) = 0"
proof -
  have "\<lfloor>1 / 2 :: real\<rfloor> = 0" by (simp add: floor_eq_iff)
  then show ?thesis by (simp add: roundHalfEven_def)
qed

lemma roundHalfEven_one: "roundHalfEven 1 = 1"
  by (simp add: roundHalfEven_def)

lemma roundHalfEven_error: "\<bar>of_int (roundHalfEven z) - z\<bar> \<le> 1 / 2"
proof -
  have "of_int \<lfloor>z\<rfloor> \<le> z" "z < of_int \<lfloor>z\<rfloor> + 1" by linarith+
  then show ?thesis by (auto simp: roundHalfEven_def Let_def)
qed

lemma minSubnormal_pos: "0 < minSubnormal"
  by (simp add: minSubnormal_def)

lemma minSubnormal_small: "minSubnormal < 2 powr (- 1022)"
  unfolding minSubnormal_def by (rule powr_less_mono) simp_all

lemma ulpDouble_subnormal: "\<bar>v\<bar> < 2 powr (- 1022) \<Longrightarrow> ulpDouble v = minSubnormal"
  by (simp add: ulpDouble_def minSubnormal_def)

lemma ulpDouble_pos: "0 < ulpDouble v"
  by (simp add: ulpDouble_def)

lemma roundDouble_error: "\<bar>roundDouble v - v\<bar> \<le> ulpDouble v / 2"
proof -
  define u where "u = ulpDouble v"
  define k where "k = roundHalfEven (v / u)"
  have u: "0 < u" by (simp add: u_def ulpDouble_pos)
  then have "roundDouble v - v = (of_int k - v / u) * u"
    by (simp add: roundDouble_def u_def [symmetric] k_def field_simps)
  then have "\<bar>roundDouble v - v\<bar> = \<bar>of_int k - v / u\<bar> * u"
    using u by (simp add: abs_mult)
  also have "\<dots> \<le> 1 / 2 * u"
    using roundHalfEven_error [of "v / u"] u unfolding k_def
    by (intro mult_right_mono) simp_all
  finally show ?thesis by (simp add: u_def)
qed


lemma roundDouble_minSubnormal: "roundDouble minSubnormal = minSubnormal"
proof -
  have "ulpDouble minSubnormal = minSubnormal"
    using minSubnormal_pos minSubnormal_small by (intro ulpDouble_subnormal) simp
  then show ?thesis
    using minSubnormal_pos by (simp add: roundDouble_def roundHalfEven_one)
qed

lemma roundDouble_half_minSubnormal: "roundDouble (minSubnormal / 2) = 0"
proof -
  have "ulpDouble (minSubnormal / 2) = minSubnormal"
    using minSubnormal_pos minSubnormal_small by (intro ulpDouble_subnormal) simp
  then show ?thesis
    using minSubnormal_pos by (simp add: roundDouble_def roundHalfEven_half)
qed

lemma ulpDouble_hundredth: "ulpDouble (1 / 100) \<le> 1 / 100"
proof (cases "\<bar>1 / 100 :: real\<bar> < 2 powr (- 1022)")
  case True
  have "(2::real) powr (- 1074) \<le> 2 powr (- 7)" by (rule powr_mono) simp_all
  also have "(2::real) powr (- 7) = 1 / 128" by (simp add: powr_minus_divide)
  finally show ?thesis using True by (simp add: ulpDouble_def)
next
  case False
  have "of_int \<lfloor>log 2 (1 / 100 :: real)\<rfloor> - 52 \<le> log 2 (1 / 100 :: real)" by linarith
  then have "(2::real) powr (of_int \<lfloor>log 2 (1 / 100 :: real)\<rfloor> - 52) \<le> 2 powr (log 2 (1 / 100))"
    by (intro powr_mono) simp_all
  also have "\<dots> = 1 / 100" by simp
  finally show ?thesis using False by (simp add: ulpDouble_def)
qed

lemma roundDouble_hundredth: "0 \<le> roundDouble (1 / 100) \<and> roundDouble (1 / 100) < 1 / 2"
  using roundDouble_error [of "1 / 100"] ulpDouble_hundredth by linarith

lemma roundDouble_below_half_minSubnormal:
  assumes "0 \<le> c" "c < 1 / 2"
  shows "roundDouble (minSubnormal * c) = 0"
proof -
  have "minSubnormal * c < minSubnormal * 1"
    using assms minSubnormal_pos by (intro mult_strict_left_mono) simp_all
  moreover have "0 \<le> minSubnormal * c"
    using assms minSubnormal_pos by simp
  ultimately have "\<bar>minSubnormal * c\<bar> < 2 powr (- 1022)"
    using minSubnormal_small by linarith
  then have "ulpDouble (minSubnormal * c) = minSubnormal" by (rule ulpDouble_subnormal)
  then show ?thesis
    using minSubnormal_pos assms by (simp add: roundDouble_def roundHalfEven_small)
qed

lemma roundDouble_tolerance: "roundDouble (minSubnormal * roundDouble (1 / 100)) = 0"
  using roundDouble_hundredth by (intro roundDouble_below_half_minSubnormal) simp_all

lemma isLineOfSightBlocked_coincident:
  "\<not> isLineOfSightBlocked T p h (point_add p (point_scale d 0)) tH n"
  by (simp add: isLineOfSightBlocked_def Let_def point_add_def point_scale_def point_sub_def
        point_length_def del: losLoop.simps)

lemma while_option_fixpoint: "b s \<Longrightarrow> c s = s \<Longrightarrow> while_option b c s = None"
proof -
  assume b: "b s" and c: "c s = s"
  have "(c ^^ k) s = s" for k by (induction k) (simp_all add: c)
  with b show ?thesis by (simp add: while_option_def)
qed

lemma rangeCond_subnormal: "rangeCond minSubnormal (0, minSubnormal)"
  using minSubnormal_pos
  by (simp add: rangeCond_def roundDouble_minSubnormal roundDouble_tolerance)

lemma rangeStep_subnormal:
  "rangeStep T p h d tH (0, minSubnormal) = (0, minSubnormal)"
  by (simp add: rangeStep_def Let_def roundDouble_minSubnormal roundDouble_half_minSubnormal
        isLineOfSightBlocked_coincident)


text \<open>
  Claim C5 (the code does not return here). Let \<open>maxRange\<close> be the smallest positive
  double, \<open>2\<^sup>-\<^sup>1\<^sup>0\<^sup>7\<^sup>4\<close>. The tolerance \<^verbatim>\<open>maxRange * 0.01\<close> rounds to 0, so the loop
  condition holds; the midpoint \<^verbatim>\<open>(lo + hi) / 2.0\<close> is a tie and rounds to 0; the target
  then coincides with the observer, the line of sight is not blocked, and \<open>lo\<close> is set to
  0 again. The loop state never changes: for every terrain, observer, azimuth and target
  height the search does not return.
\<close>

theorem computeMaxVisibleRange_subnormal_diverges:
  "0 < minSubnormal \<and>
   computeMaxVisibleRange T radarPos radarHeight azimuth minSubnormal targetHeight = None"
proof -
  have "while_option (rangeCond minSubnormal)
          (rangeStep T radarPos radarHeight \<lparr>x = cos azimuth, y = sin azimuth\<rparr> targetHeight)
          (0, minSubnormal) = None"
    using rangeCond_subnormal rangeStep_subnormal by (rule while_option_fixpoint)
  with minSubnormal_pos show ?thesis
    by (simp add: computeMaxVisibleRange_def Let_def)
qed

section \<open>Coverage polygon of one radar\<close>









section \<open>The caching manager\<close>

lemma updateRadarLoop_no_match:
  "i \<notin> radar_id ` set rs \<Longrightarrow> updateRadarLoop i params rs = None"
  by (induction rs) auto

text \<open>
  Claim C10. \<open>updateRadar\<close> with an id that no stored radar carries returns the manager
  as it was: radar list, dirty flag, both caches and every other field.
\<close>

theorem updateRadar_unknown_id_unchanged:
  "i \<notin> radar_id ` set (radars m) \<Longrightarrow> updateRadar i params m = m"
  by (simp add: updateRadar_def updateRadarLoop_no_match)

theorem updateRadar_unknown_id_unchanged_witness:
  "2 \<notin> radar_id ` set (radars managerA) \<and>
   updateRadar 2 (newRadarParams 2 ''B'' \<lparr>x = 5, y = 5\<rparr> 100 10) managerA = managerA"
proof -
  have h: "2 \<notin> radar_id ` set (radars managerA)"
    by (simp add: managerA_def addRadar_def newCoverageMergeManager_def radarA_def
          newRadarParams_def)
  from h updateRadar_unknown_id_unchanged [OF h] show ?thesis by simp
qed







end
